theory Spec2Isabelle
  imports Complex_Main
begin

section \<open>Bank lending ledger: data model\<close>

text \<open>
  The backend is an Express application (\<^verbatim>\<open>backend/server.js\<close>) over a relational store
  with three tables (\<^verbatim>\<open>backend/database.js\<close>). The repository holds two variants of the
  server: one written against SQLite with callbacks, one against PostgreSQL with
  \<^verbatim>\<open>async/await\<close>. Both are embedded below; where they differ each has its own definition.

  Numbers: a JavaScript number is modelled as an exact rational (\<^typ>\<open>rat\<close>). The rounding
  of IEEE-754 doubles and the infinities are not represented; NaN is \<open>None\<close> where a
  conversion can produce it. A request field is absent (\<open>None\<close> stands for \<^verbatim>\<open>undefined\<close>
  and \<^verbatim>\<open>null\<close>) or present. The \<^verbatim>\<open>loan_amount\<close> of a loan request is a JSON number or
  a JSON string, since \<^verbatim>\<open>+\<close> treats the two differently; the other numeric fields are
  JSON numbers, the other string fields JSON strings.
\<close>

datatype loan_status = ACTIVE | PAID_OFF

record customer =
  c_customer_id :: string
  c_name :: string

record loan =
  loan_id :: string
  customer_id :: string
  principal_amount :: rat
  total_amount :: rat
  interest_rate :: rat
  loan_period_years :: rat
  monthly_emi :: rat
  status :: loan_status

record payment =
  payment_id :: string
  p_loan_id :: string
  amount :: rat
  payment_type :: string
  payment_date :: nat

text \<open>The three tables; a table is the list of its rows in insertion order.\<close>

record store =
  Customers :: "customer list"
  Loans :: "loan list"
  Payments :: "payment list"

text \<open>
  The database connection: the current contents and, while a transaction is open, the
  contents at its \<^verbatim>\<open>BEGIN\<close>.
\<close>

record conn =
  cur :: store
  saved :: "store option"

definition begin_tx :: "conn \<Rightarrow> conn" where
  "begin_tx c = (case saved c of None \<Rightarrow> c\<lparr>saved := Some (cur c)\<rparr> | Some _ \<Rightarrow> c)"

definition commit_tx :: "conn \<Rightarrow> conn" where
  "commit_tx c = c\<lparr>saved := None\<rparr>"

definition rollback_tx :: "conn \<Rightarrow> conn" where
  "rollback_tx c = (case saved c of None \<Rightarrow> c | Some s \<Rightarrow> \<lparr>cur = s, saved = None\<rparr>)"

text \<open>
  What a request takes from outside: the identifier \<^verbatim>\<open>uuidv4()\<close> returns, the server
  time, the data statements that fail with a driver error during this request, and the
  conversions between text and numbers, which belong to the JavaScript runtime and to the
  database and not to this repository: \<open>ToNumber\<close> reads a string as a number (\<open>None\<close> is
  NaN), \<open>ToString\<close> writes a number as a string, and \<open>column_real\<close> is what a numeric
  column makes of a text bound to it (\<open>None\<close>: it is no number for the database).
\<close>

datatype db_call =
  SelectCustomer | InsertCustomer | InsertLoan
  | SelectLoan | SelectPayments | InsertPayment | UpdateLoanStatus
  | SelectTransactions | SelectLoans

record env =
  uuid :: string
  now :: nat
  fails :: "db_call set"
  ToNumber :: "string \<Rightarrow> rat option"
  ToString :: "rat \<Rightarrow> string"
  column_real :: "string \<Rightarrow> rat option"

text \<open>
  The error taxonomy of the responses: 400 with a validation message, 404, 400 with
  \<^verbatim>\<open>'Loan is already paid off.'\<close>, and 500.
\<close>

datatype error = InvalidInput | NotFound | InvalidState | StorageError

section \<open>Amortization calculator\<close>

record loan_details =
  totalAmount :: rat
  monthlyEmi :: rat
  interest :: rat

definition calculateLoanDetails :: "rat \<Rightarrow> rat \<Rightarrow> rat \<Rightarrow> loan_details" where
  "calculateLoanDetails princ years rate =
     (let interest' = princ * years * (rate / 100);
          totalAmount' = princ + interest';
          monthlyEmi' = totalAmount' / (years * 12)
      in \<lparr>totalAmount = totalAmount', monthlyEmi = monthlyEmi', interest = interest'\<rparr>)"

section \<open>Database statements\<close>

text \<open>\<^verbatim>\<open>SELECT * FROM Loans WHERE loan_id = ?\<close>, first row.\<close>

definition db_get_loan :: "string \<Rightarrow> store \<Rightarrow> loan option" where
  "db_get_loan lid s = find (\<lambda>l. loan_id l = lid) (Loans s)"

text \<open>\<^verbatim>\<open>SELECT amount FROM Payments WHERE loan_id = ?\<close>.\<close>

definition payments_of :: "string \<Rightarrow> store \<Rightarrow> payment list" where
  "payments_of lid s = filter (\<lambda>p. p_loan_id p = lid) (Payments s)"

text \<open>\<^verbatim>\<open>SELECT * FROM Loans WHERE customer_id = ?\<close>.\<close>

definition loans_of :: "string \<Rightarrow> store \<Rightarrow> loan list" where
  "loans_of cid s = filter (\<lambda>l. customer_id l = cid) (Loans s)"

text \<open>
  The inserts fail on a driver error or when the primary key is already in the table;
  \<open>None\<close> is the error passed to the callback (or thrown).
\<close>

definition insert_customer :: "env \<Rightarrow> customer \<Rightarrow> conn \<Rightarrow> conn option" where
  "insert_customer e r c =
     (if InsertCustomer \<in> fails e \<or> c_customer_id r \<in> set (map c_customer_id (Customers (cur c)))
      then None
      else Some (c\<lparr>cur := (cur c)\<lparr>Customers := Customers (cur c) @ [r]\<rparr>\<rparr>))"

definition insert_loan :: "env \<Rightarrow> loan \<Rightarrow> conn \<Rightarrow> conn option" where
  "insert_loan e r c =
     (if InsertLoan \<in> fails e \<or> loan_id r \<in> set (map loan_id (Loans (cur c)))
      then None
      else Some (c\<lparr>cur := (cur c)\<lparr>Loans := Loans (cur c) @ [r]\<rparr>\<rparr>))"

definition insert_payment :: "env \<Rightarrow> payment \<Rightarrow> conn \<Rightarrow> conn option" where
  "insert_payment e r c =
     (if InsertPayment \<in> fails e \<or> payment_id r \<in> set (map payment_id (Payments (cur c)))
      then None
      else Some (c\<lparr>cur := (cur c)\<lparr>Payments := Payments (cur c) @ [r]\<rparr>\<rparr>))"

text \<open>\<^verbatim>\<open>UPDATE Loans SET status = ? WHERE loan_id = ?\<close>.\<close>

definition update_status :: "env \<Rightarrow> loan_status \<Rightarrow> string \<Rightarrow> conn \<Rightarrow> conn option" where
  "update_status e st lid c =
     (if UpdateLoanStatus \<in> fails e then None
      else Some (c\<lparr>cur := (cur c)\<lparr>Loans :=
             map (\<lambda>l. if loan_id l = lid then l\<lparr>status := st\<rparr> else l) (Loans (cur c))\<rparr>\<rparr>))"

section \<open>Loan creation\<close>

text \<open>A JavaScript value that is a number or a string.\<close>

datatype jsval = JNum rat | JStr string

record loan_request =
  req_customer_id :: "string option"
  req_loan_amount :: "jsval option"
  req_loan_period_years :: "rat option"
  req_interest_rate_yearly :: "rat option"

record loan_created =
  lc_loan_id :: string
  lc_customer_id :: string
  total_amount_payable :: jsval
  lc_monthly_emi :: rat
  total_interest :: rat

text \<open>
  JavaScript's \<^verbatim>\<open>!x\<close>: true for \<^verbatim>\<open>undefined\<close>, \<^verbatim>\<open>null\<close>, the number 0 and the
  empty string.
\<close>

definition not_num :: "rat option \<Rightarrow> bool" where
  "not_num x = (case x of None \<Rightarrow> True | Some v \<Rightarrow> v = 0)"

definition not_str :: "string option \<Rightarrow> bool" where
  "not_str x = (case x of None \<Rightarrow> True | Some v \<Rightarrow> v = [])"

definition not_val :: "jsval option \<Rightarrow> bool" where
  "not_val x = (case x of None \<Rightarrow> True | Some (JNum v) \<Rightarrow> v = 0 | Some (JStr s) \<Rightarrow> s = [])"

text \<open>
  \<^verbatim>\<open>x <= 0\<close>: a string is converted to a number first, and every comparison with NaN
  is false.
\<close>

definition le_zero :: "env \<Rightarrow> jsval \<Rightarrow> bool" where
  "le_zero e x =
     (case x of
        JNum v \<Rightarrow> v \<le> 0
      | JStr s \<Rightarrow> (case ToNumber e s of None \<Rightarrow> False | Some v \<Rightarrow> v \<le> 0))"

text \<open>
  \<^verbatim>\<open>calculateLoanDetails\<close> when \<^verbatim>\<open>principal\<close> is a string: \<^verbatim>\<open>*\<close> converts it to a
  number, \<^verbatim>\<open>+\<close> appends the interest, written as a string, to it, and \<^verbatim>\<open>/\<close> converts the
  result of that. The result is total, EMI and interest. A string that ends in
  \<^verbatim>\<open>NaN\<close> is no number, so the EMI is NaN when the interest is.
\<close>

definition calculateLoanDetails_str ::
  "env \<Rightarrow> string \<Rightarrow> rat \<Rightarrow> rat \<Rightarrow> string \<times> rat option \<times> rat option" where
  "calculateLoanDetails_str e princ years rate =
     (let interest' = map_option (\<lambda>p. p * years * (rate / 100)) (ToNumber e princ);
          totalAmount' = princ @ (case interest' of None \<Rightarrow> ''NaN'' | Some i \<Rightarrow> ToString e i);
          monthlyEmi' = (case interest' of
                           None \<Rightarrow> None
                         | Some _ \<Rightarrow> map_option (\<lambda>t. t / (years * 12)) (ToNumber e totalAmount'))
      in (totalAmount', monthlyEmi', interest'))"

text \<open>
  The row both variants insert. The SQLite variant leaves \<^verbatim>\<open>status\<close> to the column
  default \<^verbatim>\<open>'ACTIVE'\<close>, the PostgreSQL variant passes \<^verbatim>\<open>'ACTIVE'\<close>.
\<close>

definition new_loan :: "string \<Rightarrow> string \<Rightarrow> rat \<Rightarrow> rat \<Rightarrow> rat \<Rightarrow> loan" where
  "new_loan lid cid loan_amount years rate =
     (let d = calculateLoanDetails loan_amount years rate
      in \<lparr>loan_id = lid, customer_id = cid, principal_amount = loan_amount,
          total_amount = totalAmount d, interest_rate = rate, loan_period_years = years,
          monthly_emi = monthlyEmi d, status = ACTIVE\<rparr>)"

definition loan_summary :: "string \<Rightarrow> string \<Rightarrow> rat \<Rightarrow> rat \<Rightarrow> rat \<Rightarrow> loan_created" where
  "loan_summary lid cid loan_amount years rate =
     (let d = calculateLoanDetails loan_amount years rate
      in \<lparr>lc_loan_id = lid, lc_customer_id = cid, total_amount_payable = JNum (totalAmount d),
          lc_monthly_emi = monthlyEmi d, total_interest = interest d\<rparr>)"

text \<open>
  The values bound to the \<^verbatim>\<open>INSERT INTO Loans\<close> and the body of the 201 response, or
  \<open>None\<close> when the database refuses the values. For a string \<^verbatim>\<open>loan_amount\<close> the amount
  and the concatenated total are texts bound to numeric columns, which store what
  \<open>column_real\<close> makes of them; a NaN EMI is bound as NULL to a \<^verbatim>\<open>NOT NULL\<close> column. The
  rows here hold numbers only: a text that the numeric column cannot read counts as refused
  (SQLite would keep it as text).
\<close>

definition loan_row ::
  "env \<Rightarrow> string \<Rightarrow> string \<Rightarrow> jsval \<Rightarrow> rat \<Rightarrow> rat \<Rightarrow> (loan \<times> loan_created) option" where
  "loan_row e lid cid loan_amount years rate =
     (case loan_amount of
        JNum p \<Rightarrow> Some (new_loan lid cid p years rate, loan_summary lid cid p years rate)
      | JStr s \<Rightarrow>
          (case calculateLoanDetails_str e s years rate of
             (totalAmount', Some monthlyEmi', Some interest') \<Rightarrow>
               (case (column_real e s, column_real e totalAmount') of
                  (Some p, Some t) \<Rightarrow>
                    Some (\<lparr>loan_id = lid, customer_id = cid, principal_amount = p,
                           total_amount = t, interest_rate = rate, loan_period_years = years,
                           monthly_emi = monthlyEmi', status = ACTIVE\<rparr>,
                          \<lparr>lc_loan_id = lid, lc_customer_id = cid,
                           total_amount_payable = JStr totalAmount',
                           lc_monthly_emi = monthlyEmi', total_interest = interest'\<rparr>)
                | _ \<Rightarrow> None)
           | _ \<Rightarrow> None))"

text \<open>
  \<^verbatim>\<open>POST /api/v1/loans\<close>, SQLite variant. A failed insert of the placeholder customer is
  logged and ignored.
\<close>

definition create_loan :: "env \<Rightarrow> loan_request \<Rightarrow> conn \<Rightarrow> (error + loan_created) \<times> conn" where
  "create_loan e rq c =
     (if not_str (req_customer_id rq) \<or> not_val (req_loan_amount rq)
         \<or> not_num (req_loan_period_years rq) \<or> not_num (req_interest_rate_yearly rq)
      then (Inl InvalidInput, c)
      else case (req_customer_id rq, req_loan_amount rq, req_loan_period_years rq,
                 req_interest_rate_yearly rq) of
        (Some cid, Some loan_amount, Some years, Some rate) \<Rightarrow>
          if le_zero e loan_amount \<or> years \<le> 0 \<or> rate < 0 then (Inl InvalidInput, c)
          else if SelectCustomer \<in> fails e then (Inl StorageError, c)
          else
            let c1 = (if find (\<lambda>r. c_customer_id r = cid) (Customers (cur c)) = None
                      then (case insert_customer e
                                   \<lparr>c_customer_id = cid, c_name = ''Customer '' @ cid\<rparr> c of
                              None \<Rightarrow> c | Some c' \<Rightarrow> c')
                      else c)
            in (case loan_row e (uuid e) cid loan_amount years rate of
                  None \<Rightarrow> (Inl StorageError, c1)
                | Some (row, body) \<Rightarrow>
                    (case insert_loan e row c1 of
                       None \<Rightarrow> (Inl StorageError, c1)
                     | Some c2 \<Rightarrow> (Inr body, c2)))
      | _ \<Rightarrow> (Inl InvalidInput, c))"

text \<open>
  \<^verbatim>\<open>POST /api/v1/loans\<close>, PostgreSQL variant: every statement is awaited inside one
  \<^verbatim>\<open>try\<close>, so a failed customer insert ends the request with 500. The table
  definitions of this variant are not in the repository; its numeric columns are taken to
  read a bound text as those of the SQLite variant do.
\<close>

definition create_loan_pg :: "env \<Rightarrow> loan_request \<Rightarrow> conn \<Rightarrow> (error + loan_created) \<times> conn" where
  "create_loan_pg e rq c =
     (if not_str (req_customer_id rq) \<or> not_val (req_loan_amount rq)
         \<or> not_num (req_loan_period_years rq) \<or> not_num (req_interest_rate_yearly rq)
      then (Inl InvalidInput, c)
      else case (req_customer_id rq, req_loan_amount rq, req_loan_period_years rq,
                 req_interest_rate_yearly rq) of
        (Some cid, Some loan_amount, Some years, Some rate) \<Rightarrow>
          if le_zero e loan_amount \<or> years \<le> 0 \<or> rate < 0 then (Inl InvalidInput, c)
          else if SelectCustomer \<in> fails e then (Inl StorageError, c)
          else
            (case (if find (\<lambda>r. c_customer_id r = cid) (Customers (cur c)) = None
                   then insert_customer e \<lparr>c_customer_id = cid, c_name = ''Customer '' @ cid\<rparr> c
                   else Some c) of
               None \<Rightarrow> (Inl StorageError, c)
             | Some c1 \<Rightarrow>
                 (case loan_row e (uuid e) cid loan_amount years rate of
                    None \<Rightarrow> (Inl StorageError, c1)
                  | Some (row, body) \<Rightarrow>
                      (case insert_loan e row c1 of
                         None \<Rightarrow> (Inl StorageError, c1)
                       | Some c2 \<Rightarrow> (Inr body, c2))))
      | _ \<Rightarrow> (Inl InvalidInput, c))"

section \<open>Payment recording\<close>

record payment_request =
  req_amount :: "rat option"
  req_payment_type :: "string option"

text \<open>
  The success body; \<open>pr_status\<close> is the status named in the message
  \<^verbatim>\<open>Payment recorded successfully. Loan status: ...\<close>.
\<close>

record payment_result =
  pr_payment_id :: string
  pr_loan_id :: string
  pr_status :: loan_status
  remaining_balance :: rat
  emis_left :: int

text \<open>The total recomputed from the stored principal, period and rate.\<close>

definition originalTotalAmount :: "loan \<Rightarrow> rat" where
  "originalTotalAmount l =
     principal_amount l + (principal_amount l * loan_period_years l * (interest_rate l / 100))"

text \<open>\<^verbatim>\<open>payments.reduce((sum, p) => sum + p.amount, 0)\<close>.\<close>

definition sum_amounts :: "payment list \<Rightarrow> rat" where
  "sum_amounts ps = foldl (\<lambda>sum p. sum + amount p) 0 ps"

text \<open>
  \<^verbatim>\<open>POST /api/v1/loans/:loan_id/payments\<close>, SQLite variant: the loan and the earlier
  payments are read first, then \<^verbatim>\<open>BEGIN\<close>, the insert, the update and \<^verbatim>\<open>COMMIT\<close>
  run on the serialized connection, with \<^verbatim>\<open>ROLLBACK\<close> in each error callback.
\<close>

definition record_payment ::
  "env \<Rightarrow> string \<Rightarrow> payment_request \<Rightarrow> conn \<Rightarrow> (error + payment_result) \<times> conn" where
  "record_payment e lid rq c =
     (if not_num (req_amount rq) \<or> not_str (req_payment_type rq)
         \<or> (req_payment_type rq \<noteq> Some ''EMI'' \<and> req_payment_type rq \<noteq> Some ''LUMP_SUM'')
      then (Inl InvalidInput, c)
      else case (req_amount rq, req_payment_type rq) of
        (Some amt, Some ptype) \<Rightarrow>
          if amt \<le> 0 then (Inl InvalidInput, c)
          else if SelectLoan \<in> fails e then (Inl StorageError, c)
          else (case db_get_loan lid (cur c) of
            None \<Rightarrow> (Inl NotFound, c)
          | Some loan \<Rightarrow>
              if status loan = PAID_OFF then (Inl InvalidState, c)
              else if SelectPayments \<in> fails e then (Inl StorageError, c)
              else
                let amountPaidTillDate = sum_amounts (payments_of lid (cur c));
                    balance = originalTotalAmount loan - amountPaidTillDate - amt;
                    remainingBalance = (if balance \<le> 0 then 0 else balance);
                    newStatus = (if balance \<le> 0 then PAID_OFF else status loan);
                    emisLeft =
                      (if ptype = ''LUMP_SUM'' \<and> monthly_emi loan > 0
                       then \<lceil>remainingBalance / monthly_emi loan\<rceil>
                       else if monthly_emi loan > 0
                       then \<lceil>remainingBalance / monthly_emi loan\<rceil>
                       else 0);
                    c1 = begin_tx c
                in (case insert_payment e
                           \<lparr>payment_id = uuid e, p_loan_id = lid, amount = amt,
                            payment_type = ptype, payment_date = now e\<rparr> c1 of
                      None \<Rightarrow> (Inl StorageError, rollback_tx c1)
                    | Some c2 \<Rightarrow>
                        (case update_status e newStatus lid c2 of
                           None \<Rightarrow> (Inl StorageError, rollback_tx c2)
                         | Some c3 \<Rightarrow>
                             (Inr \<lparr>pr_payment_id = uuid e, pr_loan_id = lid,
                                   pr_status = newStatus,
                                   remaining_balance = remainingBalance,
                                   emis_left = emisLeft\<rparr>,
                              commit_tx c3))))
      | _ \<Rightarrow> (Inl InvalidInput, c))"

text \<open>
  The PostgreSQL variant opens the transaction before it loads the loan, rolls back on
  every early return and in the \<^verbatim>\<open>catch\<close>, and computes \<^verbatim>\<open>emisLeft\<close> without looking at
  the payment type. Its statements go through one pooled client here: which client of the
  pool serves a statement is not represented.
\<close>

definition record_payment_pg ::
  "env \<Rightarrow> string \<Rightarrow> payment_request \<Rightarrow> conn \<Rightarrow> (error + payment_result) \<times> conn" where
  "record_payment_pg e lid rq c =
     (if not_num (req_amount rq) \<or> not_str (req_payment_type rq)
         \<or> (req_payment_type rq \<noteq> Some ''EMI'' \<and> req_payment_type rq \<noteq> Some ''LUMP_SUM'')
      then (Inl InvalidInput, c)
      else case (req_amount rq, req_payment_type rq) of
        (Some amt, Some ptype) \<Rightarrow>
          if amt \<le> 0 then (Inl InvalidInput, c)
          else
            let c1 = begin_tx c
            in if SelectLoan \<in> fails e then (Inl StorageError, rollback_tx c1)
               else (case db_get_loan lid (cur c1) of
                 None \<Rightarrow> (Inl NotFound, rollback_tx c1)
               | Some loan \<Rightarrow>
                   if status loan = PAID_OFF then (Inl InvalidState, rollback_tx c1)
                   else if SelectPayments \<in> fails e then (Inl StorageError, rollback_tx c1)
                   else
                     let amountPaidTillDate = sum_amounts (payments_of lid (cur c1));
                         balance = originalTotalAmount loan - amountPaidTillDate - amt;
                         remainingBalance = (if balance \<le> 0 then 0 else balance);
                         newStatus = (if balance \<le> 0 then PAID_OFF else status loan);
                         emisLeft =
                           (if monthly_emi loan > 0
                            then \<lceil>max 0 remainingBalance / monthly_emi loan\<rceil>
                            else 0)
                     in (case insert_payment e
                                \<lparr>payment_id = uuid e, p_loan_id = lid, amount = amt,
                                 payment_type = ptype, payment_date = now e\<rparr> c1 of
                           None \<Rightarrow> (Inl StorageError, rollback_tx c1)
                         | Some c2 \<Rightarrow>
                             (case update_status e newStatus lid c2 of
                                None \<Rightarrow> (Inl StorageError, rollback_tx c2)
                              | Some c3 \<Rightarrow>
                                  (Inr \<lparr>pr_payment_id = uuid e, pr_loan_id = lid,
                                        pr_status = newStatus,
                                        remaining_balance = remainingBalance,
                                        emis_left = emisLeft\<rparr>,
                                   commit_tx c3))))
      | _ \<Rightarrow> (Inl InvalidInput, c))"

section \<open>Ledger and overview\<close>

record ledger_entry =
  transaction_id :: string
  date :: nat
  le_amount :: rat
  le_type :: string

record ledger =
  lg_loan_id :: string
  lg_customer_id :: string
  lg_principal :: rat
  lg_total_amount :: rat
  lg_monthly_emi :: rat
  amount_paid :: rat
  balance_amount :: rat
  lg_emis_left :: int
  lg_status :: loan_status
  transactions :: "ledger_entry list"

text \<open>
  \<^verbatim>\<open>SELECT payment_id AS transaction_id, payment_date AS date, amount, payment_type AS type
  FROM Payments WHERE loan_id = ? ORDER BY payment_date ASC\<close>; rows of equal date stay in
  insertion order.
\<close>

definition transactions_of :: "string \<Rightarrow> store \<Rightarrow> ledger_entry list" where
  "transactions_of lid s =
     map (\<lambda>p. \<lparr>transaction_id = payment_id p, date = payment_date p,
               le_amount = amount p, le_type = payment_type p\<rparr>)
         (sort_key payment_date (payments_of lid s))"

text \<open>
  \<^verbatim>\<open>GET /api/v1/loans/:loan_id/ledger\<close>. The two variants differ in \<^verbatim>\<open>parseFloat\<close>
  around the columns the PostgreSQL driver returns as text, which is the identity on the
  numbers here, so one definition serves both.
\<close>

definition get_ledger :: "env \<Rightarrow> string \<Rightarrow> conn \<Rightarrow> (error + ledger) \<times> conn" where
  "get_ledger e lid c =
     (if SelectLoan \<in> fails e then (Inl StorageError, c)
      else case db_get_loan lid (cur c) of
        None \<Rightarrow> (Inl NotFound, c)
      | Some loan \<Rightarrow>
          if SelectTransactions \<in> fails e then (Inl StorageError, c)
          else
            let txs = transactions_of lid (cur c);
                totalInterestCalculated =
                  principal_amount loan * loan_period_years loan * (interest_rate loan / 100);
                total = principal_amount loan + totalInterestCalculated;
                amountPaid = foldl (\<lambda>sum t. sum + le_amount t) 0 txs;
                balanceAmount = total - amountPaid;
                emisLeft = (if monthly_emi loan > 0
                            then \<lceil>max 0 balanceAmount / monthly_emi loan\<rceil> else 0)
            in (Inr \<lparr>lg_loan_id = loan_id loan, lg_customer_id = customer_id loan,
                     lg_principal = principal_amount loan, lg_total_amount = total,
                     lg_monthly_emi = monthly_emi loan, amount_paid = amountPaid,
                     balance_amount = balanceAmount, lg_emis_left = emisLeft,
                     lg_status = status loan, transactions = txs\<rparr>, c))"

record overview_loan =
  ov_loan_id :: string
  ov_principal :: rat
  ov_total_amount :: rat
  ov_total_interest :: rat
  emi_amount :: rat
  ov_amount_paid :: rat
  ov_emis_left :: int
  ov_status :: loan_status

record overview =
  ov_customer_id :: string
  total_loans :: nat
  loans :: "overview_loan list"

definition overview_of_loan :: "store \<Rightarrow> loan \<Rightarrow> overview_loan" where
  "overview_of_loan s l =
     (let amountPaid = sum_amounts (payments_of (loan_id l) s);
          totalInterest = principal_amount l * loan_period_years l * (interest_rate l / 100);
          totalAmountPayable = principal_amount l + totalInterest;
          balanceAmount = totalAmountPayable - amountPaid;
          emisLeft = (if monthly_emi l > 0
                      then \<lceil>max 0 balanceAmount / monthly_emi l\<rceil> else 0)
      in \<lparr>ov_loan_id = loan_id l, ov_principal = principal_amount l,
          ov_total_amount = totalAmountPayable, ov_total_interest = totalInterest,
          emi_amount = monthly_emi l, ov_amount_paid = amountPaid,
          ov_emis_left = emisLeft, ov_status = status l\<rparr>)"

text \<open>\<^verbatim>\<open>GET /api/v1/customers/:customer_id/overview\<close>, the same in both variants.\<close>

definition get_overview :: "env \<Rightarrow> string \<Rightarrow> conn \<Rightarrow> (error + overview) \<times> conn" where
  "get_overview e cid c =
     (if SelectLoans \<in> fails e then (Inl StorageError, c)
      else let ls = loans_of cid (cur c)
           in if ls = [] then (Inl NotFound, c)
              else if SelectPayments \<in> fails e then (Inl StorageError, c)
              else let resolvedLoans = map (overview_of_loan (cur c)) ls
                   in (Inr \<lparr>ov_customer_id = cid, total_loans = length resolvedLoans,
                            loans = resolvedLoans\<rparr>, c))"

section \<open>The server as a transition system\<close>

datatype backend = SQLite | PostgreSQL

datatype request =
  CreateLoan loan_request
  | RecordPayment string payment_request
  | GetLedger string
  | GetOverview string

datatype response =
  LoanCreated loan_created
  | PaymentRecorded payment_result
  | LedgerOf ledger
  | OverviewOf overview

definition handle :: "backend \<Rightarrow> env \<Rightarrow> request \<Rightarrow> conn \<Rightarrow> (error + response) \<times> conn" where
  "handle b e r c =
     (case r of
        CreateLoan rq \<Rightarrow>
          map_prod (map_sum id LoanCreated) id
            (case b of SQLite \<Rightarrow> create_loan e rq c | PostgreSQL \<Rightarrow> create_loan_pg e rq c)
      | RecordPayment lid rq \<Rightarrow>
          map_prod (map_sum id PaymentRecorded) id
            (case b of SQLite \<Rightarrow> record_payment e lid rq c
                     | PostgreSQL \<Rightarrow> record_payment_pg e lid rq c)
      | GetLedger lid \<Rightarrow> map_prod (map_sum id LedgerOf) id (get_ledger e lid c)
      | GetOverview cid \<Rightarrow> map_prod (map_sum id OverviewOf) id (get_overview e cid c))"

text \<open>Requests served one after the other; each brings its own environment.\<close>

fun run :: "backend \<Rightarrow> (env \<times> request) list \<Rightarrow> conn \<Rightarrow> conn" where
  "run b [] c = c"
| "run b ((e, r) # rs) c = run b rs (snd (handle b e r c))"

definition empty_conn :: conn where
  "empty_conn = \<lparr>cur = \<lparr>Customers = [], Loans = [], Payments = []\<rparr>, saved = None\<rparr>"

section \<open>Invariants of the Loans table\<close>

text \<open>
  Row \<open>l'\<close> is row \<open>l\<close> at a later time: the terms of the loan are the same and the
  status is the same or has gone from ACTIVE to PAID_OFF.
\<close>

definition loan_step :: "loan \<Rightarrow> loan \<Rightarrow> bool" where
  "loan_step l l' \<longleftrightarrow>
     loan_id l' = loan_id l \<and> customer_id l' = customer_id l
     \<and> principal_amount l' = principal_amount l \<and> total_amount l' = total_amount l
     \<and> interest_rate l' = interest_rate l \<and> loan_period_years l' = loan_period_years l
     \<and> monthly_emi l' = monthly_emi l
     \<and> (status l' = status l \<or> (status l = ACTIVE \<and> status l' = PAID_OFF))"

text \<open>The table later: every old row is still in its place, new rows come after.\<close>

definition loans_step :: "loan list \<Rightarrow> loan list \<Rightarrow> bool" where
  "loans_step ls ls' \<longleftrightarrow>
     length ls \<le> length ls' \<and> list_all2 loan_step ls (take (length ls) ls')"

text \<open>
  Between requests no transaction is open and \<^verbatim>\<open>loan_id\<close> is a key of the Loans table
  (\<^verbatim>\<open>loan_id TEXT PRIMARY KEY\<close>).
\<close>

definition conn_inv :: "conn \<Rightarrow> bool" where
  "conn_inv c \<longleftrightarrow> saved c = None \<and> distinct (map loan_id (Loans (cur c)))"

definition totals_agree :: "conn \<Rightarrow> bool" where
  "totals_agree c \<longleftrightarrow> list_all (\<lambda>l. originalTotalAmount l = total_amount l) (Loans (cur c))"

text \<open>A request that is not a loan request with a string for \<^verbatim>\<open>loan_amount\<close>.\<close>

definition number_amount :: "request \<Rightarrow> bool" where
  "number_amount r =
     (case r of
        CreateLoan rq \<Rightarrow> (case req_loan_amount rq of Some (JStr _) \<Rightarrow> False | _ \<Rightarrow> True)
      | _ \<Rightarrow> True)"

section \<open>Example requests and states\<close>

text \<open>
  Conversions for the examples: strings of decimal digits and natural numbers, on which
  JavaScript and the database agree with them. Elsewhere they stand for no particular
  runtime.
\<close>

definition digit_of :: "char \<Rightarrow> nat option" where
  "digit_of ch = map_of [(CHR ''0'', 0), (CHR ''1'', 1), (CHR ''2'', 2), (CHR ''3'', 3),
     (CHR ''4'', 4), (CHR ''5'', 5), (CHR ''6'', 6), (CHR ''7'', 7), (CHR ''8'', 8),
     (CHR ''9'', 9)] ch"

fun parse_digits :: "nat \<Rightarrow> string \<Rightarrow> nat option" where
  "parse_digits acc [] = Some acc"
| "parse_digits acc (ch # cs) =
     (case digit_of ch of None \<Rightarrow> None | Some d \<Rightarrow> parse_digits (10 * acc + d) cs)"

definition dec_number :: "string \<Rightarrow> rat option" where
  "dec_number s = (if s = [] then None else map_option of_nat (parse_digits 0 s))"

definition digit_char :: "nat \<Rightarrow> char" where
  "digit_char d = ''0123456789'' ! d"

fun show_nat :: "nat \<Rightarrow> string" where
  "show_nat n = (if n < 10 then [digit_char n] else show_nat (n div 10) @ [digit_char (n mod 10)])"

definition dec_string :: "rat \<Rightarrow> string" where
  "dec_string r = (if 0 \<le> r \<and> of_int \<lfloor>r\<rfloor> = r then show_nat (nat \<lfloor>r\<rfloor>) else [])"

definition env_loan :: env where
  "env_loan = \<lparr>uuid = ''L1'', now = 1, fails = {}, ToNumber = dec_number,
               ToString = dec_string, column_real = dec_number\<rparr>"

definition env_loan2 :: env where
  "env_loan2 = \<lparr>uuid = ''L2'', now = 1, fails = {}, ToNumber = dec_number,
                ToString = dec_string, column_real = dec_number\<rparr>"

definition env_pay :: env where
  "env_pay = \<lparr>uuid = ''P1'', now = 2, fails = {}, ToNumber = dec_number,
              ToString = dec_string, column_real = dec_number\<rparr>"

definition env_pay0 :: env where
  "env_pay0 = \<lparr>uuid = ''P0'', now = 2, fails = {}, ToNumber = dec_number,
               ToString = dec_string, column_real = dec_number\<rparr>"

definition env_pay_fault :: env where
  "env_pay_fault = \<lparr>uuid = ''P1'', now = 2, fails = {UpdateLoanStatus}, ToNumber = dec_number,
                    ToString = dec_string, column_real = dec_number\<rparr>"

definition env_later :: env where
  "env_later = \<lparr>uuid = ''P2'', now = 3, fails = {}, ToNumber = dec_number,
                ToString = dec_string, column_real = dec_number\<rparr>"

definition loan_1000 :: loan_request where
  "loan_1000 = \<lparr>req_customer_id = Some ''c1'', req_loan_amount = Some (JNum 1000),
                 req_loan_period_years = Some 1, req_interest_rate_yearly = Some 10\<rparr>"

definition loan_500 :: loan_request where
  "loan_500 = \<lparr>req_customer_id = Some ''c2'', req_loan_amount = Some (JNum 500),
                req_loan_period_years = Some 2, req_interest_rate_yearly = Some 10\<rparr>"

definition loan_zero_rate :: loan_request where
  "loan_zero_rate = \<lparr>req_customer_id = Some ''c1'', req_loan_amount = Some (JNum 1000),
                      req_loan_period_years = Some 1, req_interest_rate_yearly = Some 0\<rparr>"

definition loan_fractional :: loan_request where
  "loan_fractional = \<lparr>req_customer_id = Some ''c1'', req_loan_amount = Some (JNum 1000),
                       req_loan_period_years = Some (3 / 2), req_interest_rate_yearly = Some 10\<rparr>"

text \<open>The body \<^verbatim>\<open>{customer_id: "c1", loan_amount: "1000", loan_period_years: 1,
  interest_rate_yearly: 10}\<close>: the amount is a string.\<close>

definition loan_string_amount :: loan_request where
  "loan_string_amount = \<lparr>req_customer_id = Some ''c1'', req_loan_amount = Some (JStr ''1000''),
                          req_loan_period_years = Some 1, req_interest_rate_yearly = Some 10\<rparr>"

definition pay :: "rat \<Rightarrow> payment_request" where
  "pay a = \<lparr>req_amount = Some a, req_payment_type = Some ''EMI''\<rparr>"

definition row_L1 :: "loan_status \<Rightarrow> loan" where
  "row_L1 st = \<lparr>loan_id = ''L1'', customer_id = ''c1'', principal_amount = 1000,
                total_amount = 1100, interest_rate = 10, loan_period_years = 1,
                monthly_emi = 275 / 3, status = st\<rparr>"

definition row_L2 :: "loan_status \<Rightarrow> loan" where
  "row_L2 st = \<lparr>loan_id = ''L2'', customer_id = ''c2'', principal_amount = 500,
                total_amount = 600, interest_rate = 10, loan_period_years = 2,
                monthly_emi = 25, status = st\<rparr>"

text \<open>The row stored for \<open>loan_string_amount\<close>.\<close>

definition row_string_amount :: loan where
  "row_string_amount = \<lparr>loan_id = ''L1'', customer_id = ''c1'', principal_amount = 1000,
                         total_amount = 1000100, interest_rate = 10, loan_period_years = 1,
                         monthly_emi = 1000100 / 12, status = ACTIVE\<rparr>"

text \<open>One loan of 1000 for a year at 10 percent, nothing paid.\<close>

definition active_conn :: conn where
  "active_conn = run SQLite [(env_loan, CreateLoan loan_1000)] empty_conn"

text \<open>The same loan after one payment of 2000, which is more than the 1100 owed.\<close>

definition overpaid_conn :: conn where
  "overpaid_conn =
     run SQLite [(env_loan, CreateLoan loan_1000), (env_pay, RecordPayment ''L1'' (pay 2000))]
       empty_conn"

text \<open>
  Two customers with a loan each: 300 paid on the loan of 1100, 50 paid on the loan of 600.
\<close>

definition two_loans_conn :: conn where
  "two_loans_conn =
     run SQLite [(env_loan, CreateLoan loan_1000), (env_loan2, CreateLoan loan_500),
                 (env_pay, RecordPayment ''L1'' (pay 300)),
                 (env_pay0, RecordPayment ''L2'' (pay 50))]
       empty_conn"

section \<open>Properties\<close>

lemmas tx_defs = begin_tx_def commit_tx_def rollback_tx_def
lemmas stmt_defs = insert_customer_def insert_loan_def insert_payment_def update_status_def
lemmas example_defs = env_loan_def env_loan2_def env_pay_def env_pay0_def env_pay_fault_def
  env_later_def loan_1000_def loan_500_def loan_zero_rate_def loan_fractional_def
  loan_string_amount_def pay_def row_L1_def row_L2_def row_string_amount_def empty_conn_def
lemmas handler_defs = handle_def create_loan_def create_loan_pg_def record_payment_def
  record_payment_pg_def not_num_def not_str_def not_val_def le_zero_def loan_row_def
  new_loan_def loan_summary_def calculateLoanDetails_def db_get_loan_def payments_of_def
  sum_amounts_def originalTotalAmount_def Let_def

declare show_nat.simps [simp del]

subsection \<open>The example states, evaluated\<close>

lemma active_conn_eq:
  "active_conn =
     \<lparr>cur = \<lparr>Customers = [\<lparr>c_customer_id = ''c1'', c_name = ''Customer c1''\<rparr>],
             Loans = [row_L1 ACTIVE], Payments = []\<rparr>,
      saved = None\<rparr>"
  by (simp add: active_conn_def example_defs handler_defs stmt_defs)

lemma overpaid_conn_eq:
  "overpaid_conn =
     \<lparr>cur = \<lparr>Customers = [\<lparr>c_customer_id = ''c1'', c_name = ''Customer c1''\<rparr>],
             Loans = [row_L1 PAID_OFF],
             Payments = [\<lparr>payment_id = ''P1'', p_loan_id = ''L1'', amount = 2000,
                          payment_type = ''EMI'', payment_date = 2\<rparr>]\<rparr>,
      saved = None\<rparr>"
  by (simp add: overpaid_conn_def example_defs handler_defs stmt_defs tx_defs)

lemma two_loans_conn_eq:
  "two_loans_conn =
     \<lparr>cur = \<lparr>Customers = [\<lparr>c_customer_id = ''c1'', c_name = ''Customer c1''\<rparr>,
                          \<lparr>c_customer_id = ''c2'', c_name = ''Customer c2''\<rparr>],
             Loans = [row_L1 ACTIVE, row_L2 ACTIVE],
             Payments = [\<lparr>payment_id = ''P1'', p_loan_id = ''L1'', amount = 300,
                          payment_type = ''EMI'', payment_date = 2\<rparr>,
                         \<lparr>payment_id = ''P0'', p_loan_id = ''L2'', amount = 50,
                          payment_type = ''EMI'', payment_date = 2\<rparr>]\<rparr>,
      saved = None\<rparr>"
  by (simp add: two_loans_conn_def example_defs handler_defs stmt_defs tx_defs)

lemma dec_number_1000: "dec_number ''1000'' = Some 1000"
  by (simp add: dec_number_def digit_of_def)

lemma dec_number_1000100: "dec_number ''1000100'' = Some 1000100"
  by (simp add: dec_number_def digit_of_def)

lemma dec_string_100: "dec_string 100 = ''100''"
  by (simp add: dec_string_def show_nat.simps [of 100] show_nat.simps [of 10]
        show_nat.simps [of 1] show_nat.simps [of "Suc 0"] digit_char_def)

lemma string_amount_details:
  "calculateLoanDetails_str env_loan ''1000'' 1 10 = (''1000100'', Some (1000100 / 12), Some 100)"
  by (simp add: calculateLoanDetails_str_def env_loan_def dec_number_1000 dec_number_1000100
        dec_string_100)

subsection \<open>Sums, transactions and lookups\<close>

lemma foldl_plus_sum_list:
  "foldl (\<lambda>s x. s + f x) a xs = (a::rat) + sum_list (map f xs)"
  by (induction xs arbitrary: a) (simp_all add: add.assoc)

lemma sum_amounts_sum_list: "sum_amounts ps = sum_list (map amount ps)"
  by (simp add: sum_amounts_def foldl_plus_sum_list)

lemma sum_list_insort_key:
  "sum_list (map g (insort_key f x xs)) = (g x :: rat) + sum_list (map g xs)"
  by (induction xs) simp_all

lemma sum_list_sort_key:
  "sum_list (map g (sort_key f xs)) = (sum_list (map g xs) :: rat)"
  by (induction xs) (simp_all add: sum_list_insort_key)

lemma ledger_amount_paid:
  "foldl (\<lambda>sum t. sum + le_amount t) 0 (transactions_of lid s)
   = sum_list (map amount (payments_of lid s))"
  by (simp add: transactions_of_def foldl_plus_sum_list comp_def sum_list_sort_key)

lemma find_map_status:
  "find (\<lambda>l. loan_id l = lid) (map (\<lambda>l. if loan_id l = lid then l\<lparr>status := st\<rparr> else l) ls)
   = map_option (\<lambda>l. l\<lparr>status := st\<rparr>) (find (\<lambda>l. loan_id l = lid) ls)"
  by (induction ls) simp_all

lemma find_unique:
  assumes "distinct (map loan_id ls)" and "find (\<lambda>l. loan_id l = lid) ls = Some loan"
    and "l \<in> set ls" and "loan_id l = lid"
  shows "l = loan"
proof -
  from assms(2) have "loan \<in> set ls" "loan_id loan = lid"
    by (auto simp: find_Some_iff)
  moreover from assms(1) have "inj_on loan_id (set ls)"
    by (simp add: distinct_map)
  ultimately show ?thesis using assms(3,4) by (auto dest: inj_onD)
qed

subsection \<open>Payment recording, variant by variant\<close>

lemma record_payment_error_unchanged:
  "saved c = None \<Longrightarrow> record_payment e lid rq c = (Inl err, c') \<Longrightarrow> c' = c"
  by (auto simp: record_payment_def tx_defs stmt_defs Let_def
           split: if_splits option.splits prod.splits)

lemma record_payment_pg_error_unchanged:
  "saved c = None \<Longrightarrow> record_payment_pg e lid rq c = (Inl err, c') \<Longrightarrow> c' = c"
  by (auto simp: record_payment_pg_def tx_defs stmt_defs Let_def
           split: if_splits option.splits prod.splits)

lemma record_payment_success:
  assumes "find (\<lambda>l. loan_id l = lid) (Loans (cur c)) = Some loan" and "status loan = ACTIVE"
    and "0 < a" and "pt = ''EMI'' \<or> pt = ''LUMP_SUM''"
    and "fails e = {}" and "uuid e \<notin> set (map payment_id (Payments (cur c)))"
  shows "\<exists>res c'. record_payment e lid \<lparr>req_amount = Some a, req_payment_type = Some pt\<rparr> c
                  = (Inr res, c')
     \<and> (let rb = principal_amount loan
                   + principal_amount loan * loan_period_years loan * (interest_rate loan / 100)
                   - sum_list (map amount (filter (\<lambda>p. p_loan_id p = lid) (Payments (cur c))))
                   - a
        in remaining_balance res = (if rb \<le> 0 then 0 else rb)
         \<and> pr_status res = (if rb \<le> 0 then PAID_OFF else ACTIVE)
         \<and> find (\<lambda>l. loan_id l = lid) (Loans (cur c'))
             = Some (loan\<lparr>status := if rb \<le> 0 then PAID_OFF else ACTIVE\<rparr>))
     \<and> Payments (cur c') = Payments (cur c) @
           [\<lparr>payment_id = uuid e, p_loan_id = lid, amount = a, payment_type = pt,
             payment_date = now e\<rparr>]"
  using assms
  by (auto simp: record_payment_def not_num_def not_str_def tx_defs stmt_defs Let_def
        sum_amounts_sum_list db_get_loan_def payments_of_def originalTotalAmount_def
        find_map_status split: option.splits)

lemma record_payment_pg_success:
  assumes "find (\<lambda>l. loan_id l = lid) (Loans (cur c)) = Some loan" and "status loan = ACTIVE"
    and "0 < a" and "pt = ''EMI'' \<or> pt = ''LUMP_SUM''"
    and "fails e = {}" and "uuid e \<notin> set (map payment_id (Payments (cur c)))"
  shows "\<exists>res c'. record_payment_pg e lid \<lparr>req_amount = Some a, req_payment_type = Some pt\<rparr> c
                  = (Inr res, c')
     \<and> (let rb = principal_amount loan
                   + principal_amount loan * loan_period_years loan * (interest_rate loan / 100)
                   - sum_list (map amount (filter (\<lambda>p. p_loan_id p = lid) (Payments (cur c))))
                   - a
        in remaining_balance res = (if rb \<le> 0 then 0 else rb)
         \<and> pr_status res = (if rb \<le> 0 then PAID_OFF else ACTIVE)
         \<and> find (\<lambda>l. loan_id l = lid) (Loans (cur c'))
             = Some (loan\<lparr>status := if rb \<le> 0 then PAID_OFF else ACTIVE\<rparr>))
     \<and> Payments (cur c') = Payments (cur c) @
           [\<lparr>payment_id = uuid e, p_loan_id = lid, amount = a, payment_type = pt,
             payment_date = now e\<rparr>]"
  using assms
  by (auto simp: record_payment_pg_def not_num_def not_str_def tx_defs stmt_defs Let_def
        sum_amounts_sum_list db_get_loan_def payments_of_def originalTotalAmount_def
        find_map_status split: option.splits)

lemma paid_off_sqlite:
  assumes "find (\<lambda>l. loan_id l = lid) (Loans (cur c)) = Some loan"
    and "status loan = PAID_OFF"
  shows "record_payment e lid rq c =
           (Inl (if (case req_amount rq of None \<Rightarrow> False | Some a \<Rightarrow> 0 < a)
                    \<and> (req_payment_type rq = Some ''EMI''
                       \<or> req_payment_type rq = Some ''LUMP_SUM'')
                 then (if SelectLoan \<in> fails e then StorageError else InvalidState)
                 else InvalidInput), c)"
  using assms
  by (auto simp: record_payment_def not_num_def not_str_def db_get_loan_def Let_def
           split: option.splits)

lemma paid_off_pg:
  assumes "saved c = None" and "find (\<lambda>l. loan_id l = lid) (Loans (cur c)) = Some loan"
    and "status loan = PAID_OFF"
  shows "record_payment_pg e lid rq c =
           (Inl (if (case req_amount rq of None \<Rightarrow> False | Some a \<Rightarrow> 0 < a)
                    \<and> (req_payment_type rq = Some ''EMI''
                       \<or> req_payment_type rq = Some ''LUMP_SUM'')
                 then (if SelectLoan \<in> fails e then StorageError else InvalidState)
                 else InvalidInput), c)"
  using assms
  by (auto simp: record_payment_pg_def not_num_def not_str_def db_get_loan_def tx_defs Let_def
           split: option.splits)

lemma payment_type_sqlite:
  "\<exists>r c1 c2. record_payment e lid \<lparr>req_amount = Some a, req_payment_type = Some ''EMI''\<rparr> c = (r, c1)
     \<and> record_payment e lid \<lparr>req_amount = Some a, req_payment_type = Some ''LUMP_SUM''\<rparr> c = (r, c2)
     \<and> saved c1 = saved c2 \<and> Customers (cur c1) = Customers (cur c2)
     \<and> Loans (cur c1) = Loans (cur c2)
     \<and> (Payments (cur c1) = Payments (cur c2)
        \<or> (Payments (cur c1) = Payments (cur c) @
               [\<lparr>payment_id = uuid e, p_loan_id = lid, amount = a,
                 payment_type = ''EMI'', payment_date = now e\<rparr>]
           \<and> Payments (cur c2) = Payments (cur c) @
               [\<lparr>payment_id = uuid e, p_loan_id = lid, amount = a,
                 payment_type = ''LUMP_SUM'', payment_date = now e\<rparr>]))"
  by (auto simp: record_payment_def not_num_def not_str_def tx_defs stmt_defs Let_def
           split: option.splits)

lemma payment_type_pg:
  "\<exists>r c1 c2. record_payment_pg e lid \<lparr>req_amount = Some a, req_payment_type = Some ''EMI''\<rparr> c = (r, c1)
     \<and> record_payment_pg e lid \<lparr>req_amount = Some a, req_payment_type = Some ''LUMP_SUM''\<rparr> c = (r, c2)
     \<and> saved c1 = saved c2 \<and> Customers (cur c1) = Customers (cur c2)
     \<and> Loans (cur c1) = Loans (cur c2)
     \<and> (Payments (cur c1) = Payments (cur c2)
        \<or> (Payments (cur c1) = Payments (cur c) @
               [\<lparr>payment_id = uuid e, p_loan_id = lid, amount = a,
                 payment_type = ''EMI'', payment_date = now e\<rparr>]
           \<and> Payments (cur c2) = Payments (cur c) @
               [\<lparr>payment_id = uuid e, p_loan_id = lid, amount = a,
                 payment_type = ''LUMP_SUM'', payment_date = now e\<rparr>]))"
  by (auto simp: record_payment_pg_def not_num_def not_str_def tx_defs stmt_defs Let_def
           split: option.splits)

subsection \<open>Preservation of the invariants\<close>

lemma loan_step_refl: "loan_step l l"
  by (simp add: loan_step_def)

lemma loan_step_trans: "loan_step a b \<Longrightarrow> loan_step b c \<Longrightarrow> loan_step a c"
  by (auto simp: loan_step_def)

lemma loans_step_refl: "loans_step ls ls"
  by (simp add: loans_step_def list_all2_same loan_step_refl)

lemma loans_step_trans:
  assumes "loans_step xs ys" and "loans_step ys zs"
  shows "loans_step xs zs"
proof -
  from assms have len: "length xs \<le> length ys" "length ys \<le> length zs"
    and xy: "list_all2 loan_step xs (take (length xs) ys)"
    and yz: "list_all2 loan_step ys (take (length ys) zs)"
    by (simp_all add: loans_step_def)
  from yz have "list_all2 loan_step (take (length xs) ys) (take (length xs) (take (length ys) zs))"
    by (rule list_all2_takeI)
  with len have "list_all2 loan_step (take (length xs) ys) (take (length xs) zs)"
    by (simp add: min_def)
  with xy have "list_all2 loan_step xs (take (length xs) zs)"
    by (rule list_all2_trans [rotated]) (rule loan_step_trans)
  with len show ?thesis by (simp add: loans_step_def)
qed

lemma loans_step_append: "loans_step ls (ls @ new)"
  by (simp add: loans_step_def list_all2_same loan_step_refl)

lemma loans_step_update:
  assumes "distinct (map loan_id (Loans s))" and "db_get_loan lid s = Some loan"
    and "status loan \<noteq> PAID_OFF"
  shows "loans_step (Loans s) (map (\<lambda>l. if loan_id l = lid then l\<lparr>status := st\<rparr> else l) (Loans s))"
proof -
  from assms(3) have act: "status loan = ACTIVE" by (cases "status loan") simp_all
  have "loan_step l (if loan_id l = lid then l\<lparr>status := st\<rparr> else l)" if "l \<in> set (Loans s)" for l
  proof (cases "loan_id l = lid")
    case True
    with assms that have "l = loan" by (auto simp: db_get_loan_def intro: find_unique)
    with act True show ?thesis by (cases st) (simp_all add: loan_step_def)
  next
    case False
    then show ?thesis by (simp add: loan_step_refl)
  qed
  then show ?thesis
    by (simp add: loans_step_def list_all2_map2 list_all2_same)
qed

lemma new_loan_total:
  "originalTotalAmount (new_loan lid cid P Y R) = total_amount (new_loan lid cid P Y R)"
  by (simp add: originalTotalAmount_def new_loan_def calculateLoanDetails_def Let_def)

lemma new_loan_id: "loan_id (new_loan lid cid P Y R) = lid"
  by (simp add: new_loan_def Let_def)

lemma loan_id_after_update:
  "loan_id \<circ> (\<lambda>l. if loan_id l = lid then l\<lparr>status := st\<rparr> else l) = loan_id"
  by (rule ext) simp

lemma totals_agree_update:
  "list_all (\<lambda>l. originalTotalAmount l = total_amount l) ls \<Longrightarrow>
   list_all (\<lambda>l. originalTotalAmount l = total_amount l)
     (map (\<lambda>l. if loan_id l = lid then l\<lparr>status := st\<rparr> else l) ls)"
  by (induction ls) (simp_all add: originalTotalAmount_def)

lemma loan_row_id: "loan_row e lid cid amt Y R = Some (row, body) \<Longrightarrow> loan_id row = lid"
  by (auto simp: loan_row_def new_loan_id split: jsval.splits prod.splits option.splits)

lemma loan_row_number_total:
  "loan_row e lid cid (JNum p) Y R = Some (row, body) \<Longrightarrow> originalTotalAmount row = total_amount row"
  by (auto simp: loan_row_def new_loan_total)

lemma create_loan_inv:
  assumes "conn_inv c"
  shows "conn_inv (snd (create_loan e rq c))"
    and "loans_step (Loans (cur c)) (Loans (cur (snd (create_loan e rq c))))"
  using assms
  by (auto simp: create_loan_def stmt_defs Let_def conn_inv_def
        loans_step_refl loans_step_append
        split: option.splits prod.splits dest: loan_row_id)

lemma create_loan_pg_inv:
  assumes "conn_inv c"
  shows "conn_inv (snd (create_loan_pg e rq c))"
    and "loans_step (Loans (cur c)) (Loans (cur (snd (create_loan_pg e rq c))))"
  using assms
  by (auto simp: create_loan_pg_def stmt_defs Let_def conn_inv_def
        loans_step_refl loans_step_append
        split: option.splits prod.splits dest: loan_row_id)

lemma create_loan_totals:
  assumes "totals_agree c" and "number_amount (CreateLoan rq)"
  shows "totals_agree (snd (create_loan e rq c))"
  using assms
  by (auto simp: create_loan_def stmt_defs Let_def totals_agree_def number_amount_def
        split: option.splits prod.splits jsval.splits dest: loan_row_number_total)

lemma create_loan_pg_totals:
  assumes "totals_agree c" and "number_amount (CreateLoan rq)"
  shows "totals_agree (snd (create_loan_pg e rq c))"
  using assms
  by (auto simp: create_loan_pg_def stmt_defs Let_def totals_agree_def number_amount_def
        split: option.splits prod.splits jsval.splits dest: loan_row_number_total)

lemma record_payment_inv:
  assumes "conn_inv c"
  shows "conn_inv (snd (record_payment e lid rq c))"
    and "loans_step (Loans (cur c)) (Loans (cur (snd (record_payment e lid rq c))))"
    and "totals_agree c \<Longrightarrow> totals_agree (snd (record_payment e lid rq c))"
  using assms
  by (auto simp: record_payment_def stmt_defs tx_defs Let_def conn_inv_def totals_agree_def
        loans_step_refl loans_step_update loan_id_after_update totals_agree_update
        split: option.splits)

lemma record_payment_pg_inv:
  assumes "conn_inv c"
  shows "conn_inv (snd (record_payment_pg e lid rq c))"
    and "loans_step (Loans (cur c)) (Loans (cur (snd (record_payment_pg e lid rq c))))"
    and "totals_agree c \<Longrightarrow> totals_agree (snd (record_payment_pg e lid rq c))"
  using assms
  by (auto simp: record_payment_pg_def stmt_defs tx_defs Let_def conn_inv_def totals_agree_def
        loans_step_refl loans_step_update loan_id_after_update totals_agree_update
        split: option.splits)

lemma get_ledger_unchanged: "snd (get_ledger e lid c) = c"
  by (simp add: get_ledger_def Let_def split: option.splits)

lemma get_overview_unchanged: "snd (get_overview e cid c) = c"
  by (simp add: get_overview_def Let_def)

lemma handle_inv:
  assumes "conn_inv c"
  shows "conn_inv (snd (handle b e r c))"
    and "loans_step (Loans (cur c)) (Loans (cur (snd (handle b e r c))))"
proof -
  show "conn_inv (snd (handle b e r c))"
    using assms
    by (cases r; cases b)
       (simp_all add: handle_def create_loan_inv create_loan_pg_inv record_payment_inv
          record_payment_pg_inv get_ledger_unchanged get_overview_unchanged)
  show "loans_step (Loans (cur c)) (Loans (cur (snd (handle b e r c))))"
    using assms
    by (cases r; cases b)
       (simp_all add: handle_def create_loan_inv create_loan_pg_inv record_payment_inv
          record_payment_pg_inv get_ledger_unchanged get_overview_unchanged loans_step_refl)
qed

lemma handle_totals:
  assumes "conn_inv c" and "totals_agree c" and "number_amount r"
  shows "totals_agree (snd (handle b e r c))"
  using assms
  by (cases r; cases b)
     (simp_all add: handle_def create_loan_totals create_loan_pg_totals record_payment_inv
        record_payment_pg_inv get_ledger_unchanged get_overview_unchanged)

lemma run_inv:
  assumes "conn_inv c"
  shows "conn_inv (run b rs c)"
    and "loans_step (Loans (cur c)) (Loans (cur (run b rs c)))"
  using assms
proof (induction rs arbitrary: c)
  case Nil
  { case 1 then show ?case by simp }
  { case 2 then show ?case by (simp add: loans_step_refl) }
next
  case (Cons x rs)
  obtain e r where x: "x = (e, r)" by (cases x)
  { case 1 then show ?case by (simp add: x Cons.IH(1) handle_inv(1)) }
  { case 2
    then have "loans_step (Loans (cur c)) (Loans (cur (snd (handle b e r c))))"
      and "loans_step (Loans (cur (snd (handle b e r c))))
             (Loans (cur (run b rs (snd (handle b e r c)))))"
      by (simp_all add: handle_inv Cons.IH(2))
    then show ?case
      unfolding x by (simp add: loans_step_trans [of _ "Loans (cur (snd (handle b e r c)))"]) }
qed

lemma run_totals:
  assumes "conn_inv c" and "totals_agree c" and "list_all (\<lambda>x. number_amount (snd x)) rs"
  shows "totals_agree (run b rs c)"
  using assms
proof (induction rs arbitrary: c)
  case Nil
  then show ?case by simp
next
  case (Cons x rs)
  obtain e r where x: "x = (e, r)" by (cases x)
  from Cons.prems have "conn_inv (snd (handle b e r c))"
    and "totals_agree (snd (handle b e r c))"
    by (simp_all add: x handle_inv(1) handle_totals)
  with Cons.prems show ?case
    by (simp add: x Cons.IH)
qed

text \<open>
  Where the recomputed total and the stored one agree: in every store built from the empty
  store by requests none of which is a loan request with a string for \<^verbatim>\<open>loan_amount\<close>.
\<close>

lemma recomputed_total_equals_stored_for_numbers:
  assumes "list_all (\<lambda>x. number_amount (snd x)) rs"
    and "l \<in> set (Loans (cur (run b rs empty_conn)))"
  shows "originalTotalAmount l = total_amount l"
proof -
  have "conn_inv empty_conn" and "totals_agree empty_conn"
    by (simp_all add: conn_inv_def totals_agree_def empty_conn_def)
  then have "totals_agree (run b rs empty_conn)"
    using assms(1) by (rule run_totals)
  with assms(2) show ?thesis
    by (simp add: totals_agree_def list_all_iff)
qed

subsection \<open>The claims\<close>

text \<open>
  C1. For an existing ACTIVE loan and a valid request with amount \<open>a > 0\<close>, payment recording
  computes the total \<open>principal + principal * years * (rate / 100)\<close> of the loan, minus the
  sum of the amounts of all rows of Payments that carry this loan's id, minus \<open>a\<close>. If
  that is \<open>\<le> 0\<close> it answers \<open>remaining_balance = 0\<close> and the loan becomes PAID_OFF;
  otherwise it answers the computed value and the loan stays ACTIVE. The payment is appended
  to Payments. Both variants; the statements succeed and the generated payment id is new.
\<close>

theorem record_payment_remaining_balance:
  assumes "find (\<lambda>l. loan_id l = lid) (Loans (cur c)) = Some loan" and "status loan = ACTIVE"
    and "0 < a" and "pt = ''EMI'' \<or> pt = ''LUMP_SUM''"
    and "fails e = {}" and "uuid e \<notin> set (map payment_id (Payments (cur c)))"
  shows "\<exists>res c'.
       handle b e (RecordPayment lid \<lparr>req_amount = Some a, req_payment_type = Some pt\<rparr>) c
         = (Inr (PaymentRecorded res), c')
     \<and> (let rb = principal_amount loan
                   + principal_amount loan * loan_period_years loan * (interest_rate loan / 100)
                   - sum_list (map amount (filter (\<lambda>p. p_loan_id p = lid) (Payments (cur c))))
                   - a
        in remaining_balance res = (if rb \<le> 0 then 0 else rb)
         \<and> pr_status res = (if rb \<le> 0 then PAID_OFF else ACTIVE)
         \<and> find (\<lambda>l. loan_id l = lid) (Loans (cur c'))
             = Some (loan\<lparr>status := if rb \<le> 0 then PAID_OFF else ACTIVE\<rparr>))
     \<and> Payments (cur c') = Payments (cur c) @
           [\<lparr>payment_id = uuid e, p_loan_id = lid, amount = a, payment_type = pt,
             payment_date = now e\<rparr>]"
proof (cases b)
  case SQLite
  from record_payment_success [OF assms] show ?thesis
    unfolding SQLite handle_def by (auto simp: Let_def)
next
  case PostgreSQL
  from record_payment_pg_success [OF assms] show ?thesis
    unfolding PostgreSQL handle_def by (auto simp: Let_def)
qed

text \<open>
  The witness: 300 is already paid on the loan of 1100, and another loan has a payment of
  its own. A payment of 900 leaves \<open>1100 - 300 - 900 = -100\<close>, answered as 0 with the loan
  PAID_OFF; a payment of 100 leaves 700 and the loan ACTIVE.
\<close>

theorem record_payment_remaining_balance_witness:
  "find (\<lambda>l. loan_id l = ''L1'') (Loans (cur two_loans_conn)) = Some (row_L1 ACTIVE)
   \<and> status (row_L1 ACTIVE) = ACTIVE \<and> (0::rat) < 900 \<and> (0::rat) < 100
   \<and> fails env_later = {}
   \<and> uuid env_later \<notin> set (map payment_id (Payments (cur two_loans_conn)))
   \<and> (\<exists>res c'. handle SQLite env_later (RecordPayment ''L1'' (pay 900)) two_loans_conn
                  = (Inr (PaymentRecorded res), c')
        \<and> remaining_balance res = 0 \<and> pr_status res = PAID_OFF
        \<and> find (\<lambda>l. loan_id l = ''L1'') (Loans (cur c')) = Some (row_L1 PAID_OFF))
   \<and> (\<exists>res c'. handle PostgreSQL env_later (RecordPayment ''L1'' (pay 100)) two_loans_conn
                  = (Inr (PaymentRecorded res), c')
        \<and> remaining_balance res = 700 \<and> pr_status res = ACTIVE
        \<and> find (\<lambda>l. loan_id l = ''L1'') (Loans (cur c')) = Some (row_L1 ACTIVE))"
proof -
  have h: "find (\<lambda>l. loan_id l = ''L1'') (Loans (cur two_loans_conn)) = Some (row_L1 ACTIVE)"
    "status (row_L1 ACTIVE) = ACTIVE"
    and pt: "''EMI'' = ''EMI'' \<or> ''EMI'' = ''LUMP_SUM''"
    and env: "fails env_later = {}"
      "uuid env_later \<notin> set (map payment_id (Payments (cur two_loans_conn)))"
    by (simp_all add: two_loans_conn_eq example_defs)
  have a: "(0::rat) < 900" "(0::rat) < 100"
    by simp_all
  have paid: "sum_list (map amount (filter (\<lambda>p. p_loan_id p = ''L1'')
                 (Payments (cur two_loans_conn)))) = 300"
    by (simp add: two_loans_conn_eq)
  have terms: "principal_amount (row_L1 ACTIVE) = 1000" "loan_period_years (row_L1 ACTIVE) = 1"
    "interest_rate (row_L1 ACTIVE) = 10"
    by (simp_all add: row_L1_def)
  from record_payment_remaining_balance [OF h a(1) pt env, of SQLite]
  have first: "\<exists>res c'. handle SQLite env_later (RecordPayment ''L1'' (pay 900)) two_loans_conn
                  = (Inr (PaymentRecorded res), c')
        \<and> remaining_balance res = 0 \<and> pr_status res = PAID_OFF
        \<and> find (\<lambda>l. loan_id l = ''L1'') (Loans (cur c')) = Some (row_L1 PAID_OFF)"
    unfolding paid terms pay_def Let_def by (auto simp: row_L1_def)
  from record_payment_remaining_balance [OF h a(2) pt env, of PostgreSQL]
  have second: "\<exists>res c'. handle PostgreSQL env_later (RecordPayment ''L1'' (pay 100)) two_loans_conn
                  = (Inr (PaymentRecorded res), c')
        \<and> remaining_balance res = 700 \<and> pr_status res = ACTIVE
        \<and> find (\<lambda>l. loan_id l = ''L1'') (Loans (cur c')) = Some (row_L1 ACTIVE)"
    unfolding paid terms pay_def Let_def by (auto simp: row_L1_def)
  from h a env first second show ?thesis by blast
qed

text \<open>
  C2. For principal \<open>P > 0\<close>, years \<open>Y \<ge> 1\<close> and rate \<open>R \<ge> 0\<close> the calculator returns
  \<open>interest = P * Y * (R / 100)\<close>, \<open>totalAmount = P + interest\<close> and
  \<open>monthlyEmi = totalAmount / (Y * 12)\<close>; and \<open>calculateLoanDetails 12000 1 10\<close> gives
  interest 1200, total 13200 and EMI 1100.
\<close>

theorem calculateLoanDetails_formula:
  assumes "0 < P" and "1 \<le> Y" and "0 \<le> R"
  shows "interest (calculateLoanDetails P Y R) = P * Y * (R / 100)
       \<and> totalAmount (calculateLoanDetails P Y R) = P + interest (calculateLoanDetails P Y R)
       \<and> monthlyEmi (calculateLoanDetails P Y R) = totalAmount (calculateLoanDetails P Y R) / (Y * 12)
       \<and> calculateLoanDetails 12000 1 10 = \<lparr>totalAmount = 13200, monthlyEmi = 1100, interest = 1200\<rparr>"
  by (simp add: calculateLoanDetails_def Let_def)

theorem calculateLoanDetails_formula_witness:
  "(0::rat) < 10000 \<and> (1::rat) \<le> 2 \<and> (0::rat) \<le> 5
   \<and> interest (calculateLoanDetails 10000 2 5) = 1000
   \<and> totalAmount (calculateLoanDetails 10000 2 5) = 11000
   \<and> monthlyEmi (calculateLoanDetails 10000 2 5) = 1375 / 3"
  using calculateLoanDetails_formula [of 10000 2 5] by simp

text \<open>
  C3. For a loan whose status is PAID_OFF, every payment attempt fails, adds no Payment row
  and leaves the loan and the rest of the connection exactly as they were. A request that
  is a payment (a positive amount and the type EMI or LUMP_SUM) fails with InvalidState once
  the loan has been read; InvalidInput is the answer only to a request that validation turns
  away before the loan is looked at, and StorageError only when reading the loan fails.
\<close>

theorem paid_off_loan_rejects_payment:
  assumes "saved c = None"
    and "find (\<lambda>l. loan_id l = lid) (Loans (cur c)) = Some loan"
    and "status loan = PAID_OFF"
  shows "handle b e (RecordPayment lid rq) c =
           (Inl (if (case req_amount rq of None \<Rightarrow> False | Some a \<Rightarrow> 0 < a)
                    \<and> (req_payment_type rq = Some ''EMI''
                       \<or> req_payment_type rq = Some ''LUMP_SUM'')
                 then (if SelectLoan \<in> fails e then StorageError else InvalidState)
                 else InvalidInput), c)"
proof (cases b)
  case SQLite
  from paid_off_sqlite [OF assms(2,3), of e rq] show ?thesis
    unfolding SQLite handle_def by simp
next
  case PostgreSQL
  from paid_off_pg [OF assms, of e rq] show ?thesis
    unfolding PostgreSQL handle_def by simp
qed

theorem paid_off_loan_rejects_payment_witness:
  "saved overpaid_conn = None
   \<and> find (\<lambda>l. loan_id l = ''L1'') (Loans (cur overpaid_conn)) = Some (row_L1 PAID_OFF)
   \<and> status (row_L1 PAID_OFF) = PAID_OFF
   \<and> handle SQLite env_later (RecordPayment ''L1'' (pay 100)) overpaid_conn
       = (Inl InvalidState, overpaid_conn)
   \<and> handle PostgreSQL env_later
         (RecordPayment ''L1'' \<lparr>req_amount = Some 100, req_payment_type = Some ''LUMP_SUM''\<rparr>)
         overpaid_conn
       = (Inl InvalidState, overpaid_conn)
   \<and> handle PostgreSQL env_later (RecordPayment ''L1'' (pay (- 50))) overpaid_conn
       = (Inl InvalidInput, overpaid_conn)"
proof -
  have h: "saved overpaid_conn = None"
    "find (\<lambda>l. loan_id l = ''L1'') (Loans (cur overpaid_conn)) = Some (row_L1 PAID_OFF)"
    "status (row_L1 PAID_OFF) = PAID_OFF"
    by (simp_all add: overpaid_conn_eq example_defs)
  from paid_off_loan_rejects_payment [OF h, of SQLite env_later "pay 100"]
  have first: "handle SQLite env_later (RecordPayment ''L1'' (pay 100)) overpaid_conn
       = (Inl InvalidState, overpaid_conn)"
    by (simp add: pay_def env_later_def)
  from paid_off_loan_rejects_payment [OF h, of PostgreSQL env_later
         "\<lparr>req_amount = Some 100, req_payment_type = Some ''LUMP_SUM''\<rparr>"]
  have second: "handle PostgreSQL env_later
         (RecordPayment ''L1'' \<lparr>req_amount = Some 100, req_payment_type = Some ''LUMP_SUM''\<rparr>)
         overpaid_conn
       = (Inl InvalidState, overpaid_conn)"
    by (simp add: env_later_def)
  from paid_off_loan_rejects_payment [OF h, of PostgreSQL env_later "pay (- 50)"]
  have third: "handle PostgreSQL env_later (RecordPayment ''L1'' (pay (- 50))) overpaid_conn
       = (Inl InvalidInput, overpaid_conn)"
    by (simp add: pay_def env_later_def)
  from h first second third show ?thesis by blast
qed

text \<open>
  C4. A payment request that ends in an error, at whichever statement, leaves the
  connection as it was before the request: no Payment row is added and no status is changed.
  Both variants, for a connection with no transaction open when the request arrives.
\<close>

theorem payment_failure_rolls_back:
  assumes "saved c = None" and "fst (handle b e (RecordPayment lid rq) c) = Inl err"
  shows "snd (handle b e (RecordPayment lid rq) c) = c"
proof (cases b)
  case SQLite
  with assms(2) have "record_payment e lid rq c = (Inl err, snd (record_payment e lid rq c))"
    by (cases "record_payment e lid rq c"; cases "fst (record_payment e lid rq c)")
       (auto simp: handle_def)
  with assms(1) have "snd (record_payment e lid rq c) = c"
    by (rule record_payment_error_unchanged)
  then show ?thesis by (simp add: SQLite handle_def)
next
  case PostgreSQL
  with assms(2) have "record_payment_pg e lid rq c = (Inl err, snd (record_payment_pg e lid rq c))"
    by (cases "record_payment_pg e lid rq c"; cases "fst (record_payment_pg e lid rq c)")
       (auto simp: handle_def)
  with assms(1) have "snd (record_payment_pg e lid rq c) = c"
    by (rule record_payment_pg_error_unchanged)
  then show ?thesis by (simp add: PostgreSQL handle_def)
qed

text \<open>
  The witness: the insert succeeds, the update of the status fails, and the rollback takes
  the inserted row away again.
\<close>

theorem payment_failure_rolls_back_witness:
  "saved active_conn = None
   \<and> insert_payment env_pay_fault
        \<lparr>payment_id = ''P1'', p_loan_id = ''L1'', amount = 100, payment_type = ''EMI'',
         payment_date = 2\<rparr> (begin_tx active_conn) \<noteq> None
   \<and> fst (handle SQLite env_pay_fault (RecordPayment ''L1'' (pay 100)) active_conn)
       = Inl StorageError
   \<and> snd (handle SQLite env_pay_fault (RecordPayment ''L1'' (pay 100)) active_conn)
       = active_conn"
proof -
  have h: "saved active_conn = None"
    "fst (handle SQLite env_pay_fault (RecordPayment ''L1'' (pay 100)) active_conn)
       = Inl StorageError"
    by (simp_all add: active_conn_eq example_defs handler_defs stmt_defs tx_defs)
  have i: "insert_payment env_pay_fault
        \<lparr>payment_id = ''P1'', p_loan_id = ''L1'', amount = 100, payment_type = ''EMI'',
         payment_date = 2\<rparr> (begin_tx active_conn) \<noteq> None"
    by (simp add: active_conn_eq example_defs stmt_defs tx_defs)
  from payment_failure_rolls_back [OF h] h i show ?thesis by simp
qed

text \<open>
  C5. The code rejects a request whose \<^verbatim>\<open>interest_rate_yearly\<close> is 0 and whose other
  fields are present and valid: \<^verbatim>\<open>!interest_rate_yearly\<close> is true for the number 0, so
  the request is answered 400 as if the field were missing, and no loan is created. The
  range check that follows, \<^verbatim>\<open>interest_rate_yearly < 0\<close>, would let it through.
\<close>

theorem create_loan_zero_rate_rejected:
  "handle SQLite env_loan (CreateLoan loan_zero_rate) empty_conn = (Inl InvalidInput, empty_conn)
   \<and> handle PostgreSQL env_loan (CreateLoan loan_zero_rate) empty_conn
       = (Inl InvalidInput, empty_conn)"
  by (simp add: handle_def create_loan_def create_loan_pg_def not_num_def not_str_def
        loan_zero_rate_def)

text \<open>
  C6, as the code has it. For a ledger read of an existing loan, \<open>amount_paid\<close> is the sum
  of the loan's payments, \<open>total_amount\<close> is the total recomputed from the loan's terms,
  \<open>balance_amount = total_amount - amount_paid\<close> with no floor at 0, and
  \<open>emis_left = \<lceil>max 0 balance_amount / monthly_emi\<rceil>\<close> when \<open>monthly_emi > 0\<close>, else 0.
  The last two conjuncts spell the sum and the total out over the tables.
\<close>

theorem ledger_figures:
  assumes "db_get_loan lid (cur c) = Some loan"
    and "SelectLoan \<notin> fails e" and "SelectTransactions \<notin> fails e"
  shows "\<exists>r. get_ledger e lid c = (Inr r, c)
     \<and> amount_paid r = sum_list (map amount (payments_of lid (cur c)))
     \<and> lg_total_amount r = originalTotalAmount loan
     \<and> balance_amount r = lg_total_amount r - amount_paid r
     \<and> lg_emis_left r = (if monthly_emi loan > 0
                          then \<lceil>max 0 (balance_amount r) / monthly_emi loan\<rceil> else 0)
     \<and> amount_paid r
          = sum_list (map amount (filter (\<lambda>p. p_loan_id p = lid) (Payments (cur c))))
     \<and> lg_total_amount r
          = principal_amount loan
            + principal_amount loan * loan_period_years loan * (interest_rate loan / 100)"
  using assms
  by (simp add: get_ledger_def Let_def ledger_amount_paid originalTotalAmount_def
        payments_of_def)

theorem ledger_figures_witness:
  "db_get_loan ''L1'' (cur overpaid_conn) = Some (row_L1 PAID_OFF)
   \<and> SelectLoan \<notin> fails env_later \<and> SelectTransactions \<notin> fails env_later
   \<and> (\<exists>r. get_ledger env_later ''L1'' overpaid_conn = (Inr r, overpaid_conn)
        \<and> amount_paid r = 2000 \<and> lg_total_amount r = 1100
        \<and> balance_amount r = lg_total_amount r - amount_paid r
        \<and> lg_emis_left r = 0)
   \<and> db_get_loan ''L1'' (cur two_loans_conn) = Some (row_L1 ACTIVE)
   \<and> (\<exists>r. get_ledger env_later ''L1'' two_loans_conn = (Inr r, two_loans_conn)
        \<and> amount_paid r = 300 \<and> lg_total_amount r = 1100 \<and> balance_amount r = 800)"
proof -
  have h: "db_get_loan ''L1'' (cur overpaid_conn) = Some (row_L1 PAID_OFF)"
    "SelectLoan \<notin> fails env_later" "SelectTransactions \<notin> fails env_later"
    by (simp_all add: overpaid_conn_eq db_get_loan_def example_defs)
  have v: "sum_list (map amount (payments_of ''L1'' (cur overpaid_conn))) = 2000"
    "originalTotalAmount (row_L1 PAID_OFF) = 1100" "monthly_emi (row_L1 PAID_OFF) = 275 / 3"
    by (simp_all add: overpaid_conn_eq payments_of_def originalTotalAmount_def row_L1_def)
  from ledger_figures [OF h] obtain r where
    r: "get_ledger env_later ''L1'' overpaid_conn = (Inr r, overpaid_conn)"
      "amount_paid r = 2000" "lg_total_amount r = 1100"
      "balance_amount r = lg_total_amount r - amount_paid r"
      "lg_emis_left r = (if (275 / 3 :: rat) > 0
                          then \<lceil>max 0 (balance_amount r) / (275 / 3)\<rceil> else 0)"
    unfolding v by blast
  from r(2-5) have "lg_emis_left r = 0" by simp
  with r have first: "\<exists>r. get_ledger env_later ''L1'' overpaid_conn = (Inr r, overpaid_conn)
        \<and> amount_paid r = 2000 \<and> lg_total_amount r = 1100
        \<and> balance_amount r = lg_total_amount r - amount_paid r
        \<and> lg_emis_left r = 0"
    by blast
  have h2: "db_get_loan ''L1'' (cur two_loans_conn) = Some (row_L1 ACTIVE)"
    by (simp add: two_loans_conn_eq db_get_loan_def example_defs)
  have v2: "sum_list (map amount (filter (\<lambda>p. p_loan_id p = ''L1'')
              (Payments (cur two_loans_conn)))) = 300"
    "principal_amount (row_L1 ACTIVE)
       + principal_amount (row_L1 ACTIVE) * loan_period_years (row_L1 ACTIVE)
         * (interest_rate (row_L1 ACTIVE) / 100) = 1100"
    by (simp_all add: two_loans_conn_eq row_L1_def)
  from ledger_figures [OF h2 h(2,3)] obtain r2 where
    r2: "get_ledger env_later ''L1'' two_loans_conn = (Inr r2, two_loans_conn)"
      "balance_amount r2 = lg_total_amount r2 - amount_paid r2"
      "amount_paid r2 = 300" "lg_total_amount r2 = 1100"
    unfolding v2 by blast
  from r2 have "balance_amount r2 = 800" by simp
  with r2 have second: "\<exists>r. get_ledger env_later ''L1'' two_loans_conn = (Inr r, two_loans_conn)
        \<and> amount_paid r = 300 \<and> lg_total_amount r = 1100 \<and> balance_amount r = 800"
    by blast
  from h h2 first second show ?thesis by blast
qed

text \<open>
  The claim as written fails for the loan of 1100 on which 2000 was paid: the ledger
  reports \<open>balance_amount = -900\<close>, where \<open>max 0 (total_amount - amount_paid)\<close> is 0.
\<close>

theorem ledger_overpaid_counterexample:
  "fst (get_ledger env_later ''L1'' overpaid_conn) =
     Inr \<lparr>lg_loan_id = ''L1'', lg_customer_id = ''c1'', lg_principal = 1000,
          lg_total_amount = 1100, lg_monthly_emi = 275 / 3, amount_paid = 2000,
          balance_amount = - 900, lg_emis_left = 0, lg_status = PAID_OFF,
          transactions = [\<lparr>transaction_id = ''P1'', date = 2, le_amount = 2000,
                           le_type = ''EMI''\<rparr>]\<rparr>
   \<and> (- 900 :: rat) \<noteq> max 0 (1100 - 2000)"
  by (simp add: overpaid_conn_eq get_ledger_def transactions_of_def payments_of_def
        db_get_loan_def example_defs Let_def)

text \<open>
  C7. Over any sequence of requests, every row of the Loans table keeps its
  \<open>principal_amount\<close>, \<open>total_amount\<close>, \<open>interest_rate\<close>, \<open>loan_period_years\<close> and
  \<open>monthly_emi\<close>; its status stays the same or goes from ACTIVE to PAID_OFF, never back;
  and the ledger and the overview leave the whole connection unchanged.
\<close>

theorem loan_terms_fixed_status_monotone:
  assumes "conn_inv c"
  shows "loans_step (Loans (cur c)) (Loans (cur (run b rs c)))
     \<and> snd (handle b e (GetLedger lid) c) = c
     \<and> snd (handle b e (GetOverview cid) c) = c"
  using assms
  by (simp add: run_inv(2) handle_def get_ledger_unchanged get_overview_unchanged)

theorem loan_terms_fixed_status_monotone_witness:
  "conn_inv active_conn
   \<and> loans_step (Loans (cur active_conn))
        (Loans (cur (run SQLite [(env_pay, RecordPayment ''L1'' (pay 2000)),
                                 (env_later, RecordPayment ''L1'' (pay 100)),
                                 (env_later, GetLedger ''L1'')] active_conn)))
   \<and> snd (handle SQLite env_later (GetLedger ''L1'') active_conn) = active_conn
   \<and> snd (handle SQLite env_later (GetOverview ''c1'') active_conn) = active_conn"
proof -
  have h: "conn_inv active_conn"
    by (simp add: conn_inv_def active_conn_eq row_L1_def)
  from loan_terms_fixed_status_monotone
         [OF h, of SQLite "[(env_pay, RecordPayment ''L1'' (pay 2000)),
                            (env_later, RecordPayment ''L1'' (pay 100)),
                            (env_later, GetLedger ''L1'')]" env_later "''L1''" "''c1''"] h
  show ?thesis by blast
qed

text \<open>
  C8. The code breaks the equality for a loan made from a request whose \<^verbatim>\<open>loan_amount\<close>
  is the string \<^verbatim>\<open>"1000"\<close>: the request passes validation, \<^verbatim>\<open>principal + interest\<close>
  appends \<^verbatim>\<open>"100"\<close> to \<^verbatim>\<open>"1000"\<close>, and the loan is stored with \<open>total_amount = 1000100\<close>
  and an EMI of \<open>1000100 / 12\<close>, while the total that payment recording recomputes from the
  stored principal, period and rate is 1100: a payment of 100 is answered with a remaining
  balance of 1000.
\<close>

theorem create_loan_string_amount_total:
  "handle SQLite env_loan (CreateLoan loan_string_amount) empty_conn =
     (Inr (LoanCreated \<lparr>lc_loan_id = ''L1'', lc_customer_id = ''c1'',
                        total_amount_payable = JStr ''1000100'',
                        lc_monthly_emi = 1000100 / 12, total_interest = 100\<rparr>),
      \<lparr>cur = \<lparr>Customers = [\<lparr>c_customer_id = ''c1'', c_name = ''Customer c1''\<rparr>],
              Loans = [row_string_amount], Payments = []\<rparr>,
       saved = None\<rparr>)
   \<and> total_amount row_string_amount = 1000100
   \<and> originalTotalAmount row_string_amount = 1100
   \<and> fst (handle SQLite env_pay (RecordPayment ''L1'' (pay 100))
            (snd (handle SQLite env_loan (CreateLoan loan_string_amount) empty_conn)))
       = Inr (PaymentRecorded \<lparr>pr_payment_id = ''P1'', pr_loan_id = ''L1'', pr_status = ACTIVE,
                                remaining_balance = 1000, emis_left = 1\<rparr>)"
proof -
  have created: "handle SQLite env_loan (CreateLoan loan_string_amount) empty_conn =
     (Inr (LoanCreated \<lparr>lc_loan_id = ''L1'', lc_customer_id = ''c1'',
                        total_amount_payable = JStr ''1000100'',
                        lc_monthly_emi = 1000100 / 12, total_interest = 100\<rparr>),
      \<lparr>cur = \<lparr>Customers = [\<lparr>c_customer_id = ''c1'', c_name = ''Customer c1''\<rparr>],
              Loans = [row_string_amount], Payments = []\<rparr>,
       saved = None\<rparr>)"
    using string_amount_details
    by (simp add: handle_def create_loan_def not_str_def not_num_def not_val_def le_zero_def
          loan_row_def stmt_defs loan_string_amount_def empty_conn_def row_string_amount_def
          env_loan_def dec_number_1000 dec_number_1000100)
  have totals: "total_amount row_string_amount = 1000100"
    "originalTotalAmount row_string_amount = 1100"
    by (simp_all add: row_string_amount_def originalTotalAmount_def)
  have emis: "\<lceil>120 / 10001 :: rat\<rceil> = 1"
    by (rule ceiling_unique) simp_all
  have paid: "fst (handle SQLite env_pay (RecordPayment ''L1'' (pay 100))
      \<lparr>cur = \<lparr>Customers = [\<lparr>c_customer_id = ''c1'', c_name = ''Customer c1''\<rparr>],
              Loans = [row_string_amount], Payments = []\<rparr>,
       saved = None\<rparr>)
       = Inr (PaymentRecorded \<lparr>pr_payment_id = ''P1'', pr_loan_id = ''L1'', pr_status = ACTIVE,
                                remaining_balance = 1000, emis_left = 1\<rparr>)"
    by (simp add: handle_def record_payment_def not_num_def not_str_def db_get_loan_def
          payments_of_def sum_amounts_def originalTotalAmount_def stmt_defs tx_defs Let_def
          pay_def env_pay_def row_string_amount_def emis)
  from created totals paid show ?thesis by simp
qed

text \<open>
  C9. Recording a payment of the same amount on the same connection as EMI and as LUMP_SUM
  gives the same response (error or payment id, status, \<open>remaining_balance\<close>,
  \<open>emis_left\<close>) and the same connection, apart from the \<open>payment_type\<close> of the one row
  appended to Payments.
\<close>

theorem payment_type_noninterference:
  "\<exists>r c1 c2.
       handle b e (RecordPayment lid \<lparr>req_amount = Some a, req_payment_type = Some ''EMI''\<rparr>) c
         = (r, c1)
     \<and> handle b e (RecordPayment lid \<lparr>req_amount = Some a, req_payment_type = Some ''LUMP_SUM''\<rparr>) c
         = (r, c2)
     \<and> saved c1 = saved c2 \<and> Customers (cur c1) = Customers (cur c2)
     \<and> Loans (cur c1) = Loans (cur c2)
     \<and> (Payments (cur c1) = Payments (cur c2)
        \<or> (Payments (cur c1) = Payments (cur c) @
               [\<lparr>payment_id = uuid e, p_loan_id = lid, amount = a,
                 payment_type = ''EMI'', payment_date = now e\<rparr>]
           \<and> Payments (cur c2) = Payments (cur c) @
               [\<lparr>payment_id = uuid e, p_loan_id = lid, amount = a,
                 payment_type = ''LUMP_SUM'', payment_date = now e\<rparr>]))"
proof (cases b)
  case SQLite
  from payment_type_sqlite [of e lid a c] obtain r c1 c2 where
    "record_payment e lid \<lparr>req_amount = Some a, req_payment_type = Some ''EMI''\<rparr> c = (r, c1)"
    "record_payment e lid \<lparr>req_amount = Some a, req_payment_type = Some ''LUMP_SUM''\<rparr> c = (r, c2)"
    "saved c1 = saved c2" "Customers (cur c1) = Customers (cur c2)"
    "Loans (cur c1) = Loans (cur c2)"
    "Payments (cur c1) = Payments (cur c2)
        \<or> (Payments (cur c1) = Payments (cur c) @
               [\<lparr>payment_id = uuid e, p_loan_id = lid, amount = a,
                 payment_type = ''EMI'', payment_date = now e\<rparr>]
           \<and> Payments (cur c2) = Payments (cur c) @
               [\<lparr>payment_id = uuid e, p_loan_id = lid, amount = a,
                 payment_type = ''LUMP_SUM'', payment_date = now e\<rparr>])"
    by blast
  then show ?thesis
    unfolding SQLite handle_def by simp
next
  case PostgreSQL
  from payment_type_pg [of e lid a c] obtain r c1 c2 where
    "record_payment_pg e lid \<lparr>req_amount = Some a, req_payment_type = Some ''EMI''\<rparr> c = (r, c1)"
    "record_payment_pg e lid \<lparr>req_amount = Some a, req_payment_type = Some ''LUMP_SUM''\<rparr> c = (r, c2)"
    "saved c1 = saved c2" "Customers (cur c1) = Customers (cur c2)"
    "Loans (cur c1) = Loans (cur c2)"
    "Payments (cur c1) = Payments (cur c2)
        \<or> (Payments (cur c1) = Payments (cur c) @
               [\<lparr>payment_id = uuid e, p_loan_id = lid, amount = a,
                 payment_type = ''EMI'', payment_date = now e\<rparr>]
           \<and> Payments (cur c2) = Payments (cur c) @
               [\<lparr>payment_id = uuid e, p_loan_id = lid, amount = a,
                 payment_type = ''LUMP_SUM'', payment_date = now e\<rparr>])"
    by blast
  then show ?thesis
    unfolding PostgreSQL handle_def by simp
qed

theorem payment_type_noninterference_witness:
  "\<exists>r c1 c2.
       handle SQLite env_pay
         (RecordPayment ''L1'' \<lparr>req_amount = Some 100, req_payment_type = Some ''EMI''\<rparr>)
         active_conn = (r, c1)
     \<and> handle SQLite env_pay
         (RecordPayment ''L1'' \<lparr>req_amount = Some 100, req_payment_type = Some ''LUMP_SUM''\<rparr>)
         active_conn = (r, c2)
     \<and> Loans (cur c1) = Loans (cur c2)
     \<and> Payments (cur c1) \<noteq> Payments (cur c2)"
proof -
  from payment_type_noninterference [of SQLite env_pay "''L1''" 100 active_conn]
  obtain r c1 c2 where
    h: "handle SQLite env_pay
         (RecordPayment ''L1'' \<lparr>req_amount = Some 100, req_payment_type = Some ''EMI''\<rparr>)
         active_conn = (r, c1)"
      "handle SQLite env_pay
         (RecordPayment ''L1'' \<lparr>req_amount = Some 100, req_payment_type = Some ''LUMP_SUM''\<rparr>)
         active_conn = (r, c2)"
      "Loans (cur c1) = Loans (cur c2)"
    by blast
  have "Payments (cur (snd (handle SQLite env_pay
         (RecordPayment ''L1'' \<lparr>req_amount = Some 100, req_payment_type = Some ''EMI''\<rparr>)
         active_conn)))
     \<noteq> Payments (cur (snd (handle SQLite env_pay
         (RecordPayment ''L1'' \<lparr>req_amount = Some 100, req_payment_type = Some ''LUMP_SUM''\<rparr>)
         active_conn)))"
    by (simp add: active_conn_eq example_defs handler_defs stmt_defs tx_defs)
  with h show ?thesis by auto
qed

text \<open>
  C10. Loan creation does not require \<^verbatim>\<open>loan_period_years\<close> to be an integer: the request
  for 1000 over \<open>3/2\<close> years at 10 percent passes validation in both variants, and the loan
  is stored with interest 150, total 1150 and EMI \<open>1150 / 18\<close>, computed from \<open>3/2\<close>.
\<close>

theorem create_loan_fractional_years:
  "(3 / 2 :: rat) \<notin> \<int>
   \<and> handle SQLite env_loan (CreateLoan loan_fractional) empty_conn =
       (Inr (LoanCreated \<lparr>lc_loan_id = ''L1'', lc_customer_id = ''c1'',
                          total_amount_payable = JNum (1000 + 1000 * (3 / 2) * (10 / 100)),
                          lc_monthly_emi = 1150 / (3 / 2 * 12), total_interest = 150\<rparr>),
        \<lparr>cur = \<lparr>Customers = [\<lparr>c_customer_id = ''c1'', c_name = ''Customer c1''\<rparr>],
                Loans = [\<lparr>loan_id = ''L1'', customer_id = ''c1'', principal_amount = 1000,
                          total_amount = 1150, interest_rate = 10, loan_period_years = 3 / 2,
                          monthly_emi = 1150 / 18, status = ACTIVE\<rparr>],
                Payments = []\<rparr>,
         saved = None\<rparr>)
   \<and> handle PostgreSQL env_loan (CreateLoan loan_fractional) empty_conn =
       handle SQLite env_loan (CreateLoan loan_fractional) empty_conn"
proof -
  have "(3 / 2 :: rat) \<notin> \<int>"
  proof
    assume "(3 / 2 :: rat) \<in> \<int>"
    then obtain z :: int where "(3 / 2 :: rat) = of_int z"
      by (rule Ints_cases)
    then have "(of_int 3 :: rat) = of_int (2 * z)"
      by simp
    then have "3 = 2 * z"
      by (simp only: of_int_eq_iff)
    then show False
      by presburger
  qed
  then show ?thesis
    by (simp add: example_defs handler_defs stmt_defs)
qed


end
